theory Spec2Isabelle
  imports Complex_Main
begin

section \<open>Values\<close>

text \<open>
  A JavaScript number is a real number here; the infinities and NaN are not modelled. A
  point (\<open>vec3\<close>) is an array of three numbers, a plane or a bounding sphere
  (\<open>vec4\<close>) an array of four; \<open>c0 v\<close> is \<^verbatim>\<open>v[0]\<close>,
  \<open>d3 s\<close> is \<^verbatim>\<open>s[3]\<close>.
\<close>

datatype vec3 = Vec3 (c0: real) (c1: real) (c2: real)

datatype vec4 = Vec4 (d0: real) (d1: real) (d2: real) (d3: real)

text \<open>
  What the code throws: a JavaScript \<^verbatim>\<open>Error\<close> with its message, or the
  \<^verbatim>\<open>TypeError\<close> of reading a property of a value that is no object.
\<close>

datatype error = Error string | TypeError

section \<open>Arithmetic\<close>

text \<open>
  Every arithmetic operation of the code yields the exact result rounded to a number.
  The functions that compute take the rounding as their first argument: \<open>exact\<close>
  is arithmetic without rounding, \<open>double\<close> is the rounding of IEEE 754 double
  precision (binary64, to nearest, ties to even) for results in its normal range: a result
  of magnitude in \<open>[2^e, 2^(e+1))\<close> is rounded to the nearest multiple of
  \<open>2^(e-52)\<close>. Comparisons and negation are exact.
\<close>

type_synonym rounding = "real \<Rightarrow> real"

definition exact :: rounding where
  "exact x = x"

definition round_even :: "real \<Rightarrow> int" where
  "round_even y =
     (let f = \<lfloor>y\<rfloor> in
      if y - of_int f < 1 / 2 then f
      else if 1 / 2 < y - of_int f then f + 1
      else if even f then f else f + 1)"

definition double :: rounding where
  "double x =
     (if x = 0 then 0
      else
        (let e = \<lfloor>log 2 \<bar>x\<bar>\<rfloor>;
             u = 2 powi (e - 52)
         in of_int (round_even (x / u)) * u))"

section \<open>poly3\<close>

text \<open>
  The object \<^verbatim>\<open>{ vertices, plane, boundingSphere }\<close> of
  \<^verbatim>\<open>geometries/poly3/create.js\<close>; \<^verbatim>\<open>null\<close> is \<open>None\<close>.
\<close>

record poly3 =
  vertices :: "vec3 list"
  plane :: "vec4 option"
  boundingSphere :: "vec4 option"

text \<open>
  \<^verbatim>\<open>create(vertices)\<close>: the argument is \<open>None\<close> when it is
  \<^verbatim>\<open>undefined\<close>.
\<close>

definition create :: "vec3 list option \<Rightarrow> poly3" where
  "create arg =
     (let vs' =
        (case arg of
           None \<Rightarrow> []
         | Some vs \<Rightarrow> if length vs < 3 then [] else vs)
      in \<lparr>vertices = vs', plane = None, boundingSphere = None\<rparr>)"

text \<open>\<^verbatim>\<open>fromPointsAndPlane(vertices, plane)\<close>: no checks are performed.\<close>

definition fromPointsAndPlane :: "vec3 list \<Rightarrow> vec4 option \<Rightarrow> poly3" where
  "fromPointsAndPlane vs pl =
     \<lparr>vertices = vs, plane = pl, boundingSphere = None\<rparr>"

section \<open>The store of polygon objects\<close>

text \<open>
  A polygon is a mutable object: \<^verbatim>\<open>measureBoundingSphere\<close> writes its
  \<^verbatim>\<open>boundingSphere\<close> field, \<^verbatim>\<open>invert\<close> writes the
  \<^verbatim>\<open>plane\<close> field of the object it has just created, and the accessor of
  the plane writes the \<^verbatim>\<open>plane\<close> field of its argument. Where the identity of a
  polygon matters, the objects live in a store: a reference is an index into the list of all
  objects allocated so far, and allocation appends. A reference outside the store stands for
  an argument that is no object; reading a property of it throws a
  \<^verbatim>\<open>TypeError\<close>. The only array the functions modelled here write is the
  one that \<^verbatim>\<open>invert\<close> has just allocated, so the arrays of vertices are kept as
  values.
\<close>

type_synonym ref = nat

type_synonym heap = "poly3 list"

definition alloc :: "heap \<Rightarrow> poly3 \<Rightarrow> ref \<times> heap" where
  "alloc h obj = (length h, h @ [obj])"

section \<open>measureBoundingSphere\<close>

text \<open>
  The six vertices the loop of \<^verbatim>\<open>measureBoundingSphere\<close> keeps: the vertex
  with the least and with the greatest coordinate on each axis.
\<close>

record extremes =
  minx :: vec3
  miny :: vec3
  minz :: vec3
  maxx :: vec3
  maxy :: vec3
  maxz :: vec3

text \<open>One round of the loop, for the vertex \<open>v\<close>.\<close>

definition visit :: "vec3 \<Rightarrow> extremes \<Rightarrow> extremes" where
  "visit v e =
     \<lparr>minx = (if c0 (minx e) > c0 v then v else minx e),
      miny = (if c1 (miny e) > c1 v then v else miny e),
      minz = (if c2 (minz e) > c2 v then v else minz e),
      maxx = (if c0 (maxx e) < c0 v then v else maxx e),
      maxy = (if c1 (maxy e) < c1 v then v else maxy e),
      maxz = (if c2 (maxz e) < c2 v then v else maxz e)\<rparr>"

text \<open>The loop over the vertices, from index 0 upwards.\<close>

primrec scan :: "vec3 list \<Rightarrow> extremes \<Rightarrow> extremes" where
  "scan [] e = e"
| "scan (v # vs) e = scan vs (visit v e)"

text \<open>
  Lines 15 to 51 of the function: the sphere computed from the vertices when no sphere is
  cached. Its centre is the centre of the bounding box, its radius the distance from there
  to the corner of the greatest coordinates.
\<close>

definition computeSphere :: "rounding \<Rightarrow> vec3 list \<Rightarrow> vec4" where
  "computeSphere rnd vs =
     (case vs of
        [] \<Rightarrow> Vec4 0 0 0 0
      | v0 # _ \<Rightarrow>
          (let e = scan vs \<lparr>minx = v0, miny = v0, minz = v0, maxx = v0, maxy = v0, maxz = v0\<rparr>;
               out0 = rnd (rnd (c0 (minx e) + c0 (maxx e)) * 0.5);
               out1 = rnd (rnd (c1 (miny e) + c1 (maxy e)) * 0.5);
               out2 = rnd (rnd (c2 (minz e) + c2 (maxz e)) * 0.5);
               x = rnd (out0 - c0 (maxx e));
               y = rnd (out1 - c1 (maxy e));
               z = rnd (out2 - c2 (maxz e))
           in Vec4 out0 out1 out2
                (rnd (sqrt (rnd (rnd (rnd (x * x) + rnd (y * y)) + rnd (z * z)))))))"

text \<open>
  \<^verbatim>\<open>measureBoundingSphere(polygon)\<close>: a cached sphere is returned as it is;
  otherwise the sphere is computed, and it is stored in the polygon unless the polygon has
  no vertices (the function returns before the assignment then). The result is the sphere
  and the store after the call.
\<close>

definition measureBoundingSphere :: "rounding \<Rightarrow> heap \<Rightarrow> ref \<Rightarrow> error + (vec4 \<times> heap)" where
  "measureBoundingSphere rnd h p =
     (if length h \<le> p then Inl TypeError
      else
        (let polygon = h ! p in
         case boundingSphere polygon of
           Some s \<Rightarrow> Inr (s, h)
         | None \<Rightarrow>
             (let out = computeSphere rnd (vertices polygon) in
              if length (vertices polygon) = 0 then Inr (out, h)
              else Inr (out, h[p := polygon\<lparr>boundingSphere := Some out\<rparr>]))))"

text \<open>
  Modelled from the spec: \<^verbatim>\<open>maths/vec3.distance\<close>, which is not among the
  sources; the Euclidean distance of two points, computed as the radius above is, from the
  differences \<^verbatim>\<open>b[i] - a[i]\<close>.
\<close>

definition distance :: "rounding \<Rightarrow> vec3 \<Rightarrow> vec3 \<Rightarrow> real" where
  "distance rnd a b =
     (let x = rnd (c0 b - c0 a); y = rnd (c1 b - c1 a); z = rnd (c2 b - c2 a)
      in rnd (sqrt (rnd (rnd (rnd (x * x) + rnd (y * y)) + rnd (z * z)))))"

text \<open>The centre and the radius of a sphere \<^verbatim>\<open>[cx, cy, cz, r]\<close>.\<close>

definition center :: "vec4 \<Rightarrow> vec3" where
  "center s = Vec3 (d0 s) (d1 s) (d2 s)"

definition radius :: "vec4 \<Rightarrow> real" where
  "radius s = d3 s"

text \<open>
  The state of the cache in every polygon that the functions of this theory build: the
  field is unset, or it holds the sphere computed from the polygon's vertices.
\<close>

definition cache_valid :: "rounding \<Rightarrow> poly3 \<Rightarrow> bool" where
  "cache_valid rnd polygon =
     (case boundingSphere polygon of
        None \<Rightarrow> True
      | Some s \<Rightarrow> s = computeSphere rnd (vertices polygon))"

section \<open>invert\<close>

text \<open>
  Modelled from the spec: \<^verbatim>\<open>maths/plane.flip\<close>, which is not among the sources;
  the flipped plane has the negated normal and the negated offset.
\<close>

definition plane_flip :: "vec4 \<Rightarrow> vec4" where
  "plane_flip pl = Vec4 (- d0 pl) (- d1 pl) (- d2 pl) (- d3 pl)"

text \<open>
  \<^verbatim>\<open>invert(polygon)\<close>: the loop fills a new array with
  \<^verbatim>\<open>src[len - 1 - i]\<close> at index \<open>i\<close>, \<^verbatim>\<open>create\<close> builds the new
  object from it, and the plane of the new object is set when the argument has one. The
  result is the reference to the new object and the store after the call.
\<close>

definition invert :: "heap \<Rightarrow> ref \<Rightarrow> error + (ref \<times> heap)" where
  "invert h p =
     (if length h \<le> p then Inl TypeError
      else
        (let polygon = h ! p;
             src = vertices polygon;
             len = length src;
             vs = map (\<lambda>i. src ! (len - 1 - i)) [0..<len];
             (inverted, h1) = alloc h (create (Some vs));
             h2 = (case plane polygon of
                     Some pl \<Rightarrow> h1[inverted := (h1 ! inverted)\<lparr>plane := Some (plane_flip pl)\<rparr>]
                   | None \<Rightarrow> h1)
         in Inr (inverted, h2)))"

section \<open>The plane of a polygon\<close>

text \<open>
  Modelled from the spec: the accessor \<^verbatim>\<open>poly3.plane(polygon)\<close>, which is not
  among the sources. The spec describes the attribute \<^verbatim>\<open>plane\<close> as lazily
  computed and cached once computed, and the plane as derived from the points of the
  polygon, with a failure reported for degenerate input at the point the plane is
  computed: a cached plane is returned as it is; otherwise the plane is constructed from
  the vertices, stored in the polygon and returned, and when the construction fails its
  error is thrown and nothing is stored. The construction itself
  (\<^verbatim>\<open>maths/plane.fromPoints\<close>, not among the sources either) is the parameter
  \<open>fromPoints\<close>. The result is the plane and the store after the call.
\<close>

definition poly3_plane :: "(vec3 list \<Rightarrow> error + vec4) \<Rightarrow> heap \<Rightarrow> ref \<Rightarrow> error + (vec4 \<times> heap)" where
  "poly3_plane fromPoints h p =
     (if length h \<le> p then Inl TypeError
      else
        (let polygon = h ! p in
         case plane polygon of
           Some pl \<Rightarrow> Inr (pl, h)
         | None \<Rightarrow>
             (case fromPoints (vertices polygon) of
                Inl e \<Rightarrow> Inl e
              | Inr pl \<Rightarrow> Inr (pl, h[p := polygon\<lparr>plane := Some pl\<rparr>]))))"

section \<open>Calls on the store\<close>

text \<open>
  One call of a function of the poly3 module, seen as a step from the store before the call
  to the store after it: \<^verbatim>\<open>create\<close> and \<^verbatim>\<open>fromPointsAndPlane\<close>
  allocate the object they return, \<^verbatim>\<open>invert\<close>,
  \<^verbatim>\<open>measureBoundingSphere\<close> and the accessor of the plane are the functions
  above. The rounding of the arithmetic and the construction of a plane are fixed.
\<close>

inductive step :: "rounding \<Rightarrow> (vec3 list \<Rightarrow> error + vec4) \<Rightarrow> heap \<Rightarrow> heap \<Rightarrow> bool"
  for rnd :: rounding and fp :: "vec3 list \<Rightarrow> error + vec4" where
  step_create: "step rnd fp h (snd (alloc h (create arg)))"
| step_fromPointsAndPlane: "step rnd fp h (snd (alloc h (fromPointsAndPlane vs pl)))"
| step_invert: "invert h p = Inr (q, h') \<Longrightarrow> step rnd fp h h'"
| step_measure: "measureBoundingSphere rnd h p = Inr (s, h') \<Longrightarrow> step rnd fp h h'"
| step_plane: "poly3_plane fp h p = Inr (pl, h') \<Longrightarrow> step rnd fp h h'"

section \<open>minkowskiSum\<close>

text \<open>
  A solid (\<open>geom3\<close>) is a list of polygons; no polygon is written by the functions of
  this section, so the polygons are kept as values here.
  Modelled from the spec: \<^verbatim>\<open>geom3.create\<close>, \<^verbatim>\<open>geom3.toPolygons\<close> and
  \<^verbatim>\<open>geom3.isA\<close>, which are not among the sources. A solid reaches the operators
  with its transform already applied to the vertices, so \<^verbatim>\<open>toPolygons\<close> returns
  the polygons as they are.
\<close>

record geom3 =
  polygons :: "poly3 list"

definition geom3_create :: "poly3 list \<Rightarrow> geom3" where
  "geom3_create ps = \<lparr>polygons = ps\<rparr>"

definition toPolygons :: "geom3 \<Rightarrow> poly3 list" where
  "toPolygons geometry = polygons geometry"

text \<open>The values a caller can pass to an operator.\<close>

datatype jsval =
    JUndefined
  | JNull
  | JString string
  | JNumber real
  | JGeom3 geom3
  | JArray "jsval list"

fun geom3_isA :: "jsval \<Rightarrow> bool" where
  "geom3_isA (JGeom3 g) = True"
| "geom3_isA v = False"

text \<open>
  Modelled from the spec: \<^verbatim>\<open>utils/flatten\<close>, which is not among the sources;
  it replaces every array among the arguments by its elements, at any depth.
\<close>

fun flatten :: "jsval list \<Rightarrow> jsval list" where
  "flatten [] = []"
| "flatten (JArray xs # rest) = flatten xs @ flatten rest"
| "flatten (v # rest) = v # flatten rest"

text \<open>
  What \<^verbatim>\<open>minkowskiSum\<close> depends on: the rounding of its arithmetic, and the
  functions it calls that are not among the sources, \<^verbatim>\<open>isConvex\<close>,
  \<^verbatim>\<open>hullPoints3\<close> and \<^verbatim>\<open>union\<close>. They are parameters of the
  model, and each of the three functions may throw.
\<close>

record environment =
  arith :: rounding
  isConvex :: "geom3 \<Rightarrow> error + bool"
  hullPoints3 :: "vec3 list \<Rightarrow> error + poly3 list"
  union_geom3 :: "geom3 list \<Rightarrow> error + geom3"

text \<open>Sequencing of calls that may throw: the first error ends the computation.\<close>

definition bindE :: "error + 'a \<Rightarrow> ('a \<Rightarrow> error + 'b) \<Rightarrow> error + 'b" where
  "bindE r f = (case r of Inl e \<Rightarrow> Inl e | Inr x \<Rightarrow> f x)"

primrec mapE :: "('a \<Rightarrow> error + 'b) \<Rightarrow> 'a list \<Rightarrow> error + 'b list" where
  "mapE f [] = Inr []"
| "mapE f (x # xs) = bindE (f x) (\<lambda>y. bindE (mapE f xs) (\<lambda>ys. Inr (y # ys)))"

text \<open>
  \<^verbatim>\<open>extractUniqueVertices\<close>: the vertices of all polygons in order, each kept at
  its first occurrence. The source compares the keys
  \<^verbatim>\<open>`${v[0]},${v[1]},${v[2]}`\<close>, which are equal when the coordinates are.
\<close>

primrec pushUnique :: "vec3 list \<Rightarrow> vec3 list \<Rightarrow> vec3 list" where
  "pushUnique unique [] = unique"
| "pushUnique unique (v # vs) = pushUnique (if v \<in> set unique then unique else unique @ [v]) vs"

definition extractUniqueVertices :: "geom3 \<Rightarrow> vec3 list" where
  "extractUniqueVertices geometry =
     pushUnique [] (concat (map vertices (toPolygons geometry)))"

definition minkowskiSumConvex :: "environment \<Rightarrow> geom3 \<Rightarrow> geom3 \<Rightarrow> error + geom3" where
  "minkowskiSumConvex env geomA geomB =
     (let pointsA = extractUniqueVertices geomA;
          pointsB = extractUniqueVertices geomB
      in if length pointsA = 0 \<or> length pointsB = 0 then Inr (geom3_create [])
         else
           (let summedPoints =
                  concat (map (\<lambda>a. map (\<lambda>b.
                      Vec3 (arith env (c0 a + c0 b)) (arith env (c1 a + c1 b))
                           (arith env (c2 a + c2 b))) pointsB) pointsA)
            in bindE (hullPoints3 env summedPoints)
                 (\<lambda>hullPolygons. Inr (geom3_create hullPolygons))))"

definition computeCentroid :: "environment \<Rightarrow> geom3 \<Rightarrow> vec3" where
  "computeCentroid env geometry =
     (let vs = extractUniqueVertices geometry
      in if length vs = 0 then Vec3 0 0 0
         else
           (let x = foldl (\<lambda>acc v. arith env (acc + c0 v)) 0 vs;
                y = foldl (\<lambda>acc v. arith env (acc + c1 v)) 0 vs;
                z = foldl (\<lambda>acc v. arith env (acc + c2 v)) 0 vs;
                n = real (length vs)
            in Vec3 (arith env (x / n)) (arith env (y / n)) (arith env (z / n))))"

definition createTetrahedronPolygons :: "vec3 \<Rightarrow> vec3 \<Rightarrow> vec3 \<Rightarrow> vec3 \<Rightarrow> poly3 list" where
  "createTetrahedronPolygons p0 p1 p2 p3 =
     [create (Some [p0, p2, p1]),
      create (Some [p0, p1, p3]),
      create (Some [p1, p2, p3]),
      create (Some [p2, p0, p3])]"

text \<open>
  \<^verbatim>\<open>decomposeIntoTetrahedra\<close>: the inner loop runs \<open>j\<close> from 1 while
  \<^verbatim>\<open>j < vertices.length - 1\<close>, so every index it reads is in range.
\<close>

definition decomposeIntoTetrahedra :: "environment \<Rightarrow> geom3 \<Rightarrow> geom3 list" where
  "decomposeIntoTetrahedra env geometry =
     (let ps = toPolygons geometry
      in if length ps = 0 then []
         else
           (let centroid = computeCentroid env geometry
            in concat (map (\<lambda>polygon.
                 (let vs = vertices polygon
                  in map (\<lambda>j. geom3_create
                             (createTetrahedronPolygons centroid (vs ! 0) (vs ! j) (vs ! (j + 1))))
                       [1..<length vs - 1])) ps)))"

definition minkowskiSumNonConvexConvex :: "environment \<Rightarrow> geom3 \<Rightarrow> geom3 \<Rightarrow> error + geom3" where
  "minkowskiSumNonConvexConvex env geomA geomB =
     (let tetrahedra = decomposeIntoTetrahedra env geomA
      in if length tetrahedra = 0 then Inr (geom3_create [])
         else bindE (mapE (\<lambda>tet. minkowskiSumConvex env tet geomB) tetrahedra)
                (\<lambda>parts. if length parts = 1 then Inr (parts ! 0) else union_geom3 env parts))"

text \<open>
  \<^verbatim>\<open>minkowskiSum(...geometries)\<close>. The operands are the arguments after
  \<^verbatim>\<open>flatten\<close>. The three checks at entry come before the first call of
  \<^verbatim>\<open>isConvex\<close>. Past the second check the list has exactly two elements, and
  past the third both are solids, so the last branch of the \<open>case\<close> is never taken.
\<close>

definition minkowskiSum :: "environment \<Rightarrow> jsval list \<Rightarrow> error + geom3" where
  "minkowskiSum env args =
     (let geometries = flatten args
      in if length geometries < 2
         then Inl (Error ''minkowskiSum requires at least two geometries'')
         else if length geometries > 2
         then Inl (Error ''minkowskiSum currently supports exactly two geometries'')
         else if \<not> geom3_isA (geometries ! 0) \<or> \<not> geom3_isA (geometries ! 1)
         then Inl (Error ''minkowskiSum requires geom3 geometries'')
         else
           (case (geometries ! 0, geometries ! 1) of
              (JGeom3 geomA, JGeom3 geomB) \<Rightarrow>
                bindE (isConvex env geomA) (\<lambda>aConvex.
                bindE (isConvex env geomB) (\<lambda>bConvex.
                  if aConvex \<and> bConvex then minkowskiSumConvex env geomA geomB
                  else if \<not> aConvex \<and> bConvex then minkowskiSumNonConvexConvex env geomA geomB
                  else if aConvex \<and> \<not> bConvex then minkowskiSumNonConvexConvex env geomB geomA
                  else Inl (Error ''minkowskiSum of two non-convex geometries is not yet supported'')))
            | _ \<Rightarrow> Inl TypeError))"

text \<open>
  An environment whose three functions all throw: in it, a call that gets as far as the
  convexity analysis or the construction of geometry ends in their \<open>TypeError\<close>.
\<close>

definition throwing :: environment where
  "throwing =
     \<lparr>arith = double,
      isConvex = (\<lambda>g. Inl TypeError),
      hullPoints3 = (\<lambda>ps. Inl TypeError),
      union_geom3 = (\<lambda>gs. Inl TypeError)\<rparr>"

section \<open>Properties of double rounding\<close>














































section \<open>Properties of the bounding sphere\<close>

text \<open>
  The loop only ever lowers the least and raises the greatest coordinate it holds, and
  every vertex it visits lies between them afterwards.
\<close>

lemma scan_bounds:
  "c0 (minx (scan vs e)) \<le> c0 (minx e) \<and> c0 (maxx e) \<le> c0 (maxx (scan vs e)) \<and>
   c1 (miny (scan vs e)) \<le> c1 (miny e) \<and> c1 (maxy e) \<le> c1 (maxy (scan vs e)) \<and>
   c2 (minz (scan vs e)) \<le> c2 (minz e) \<and> c2 (maxz e) \<le> c2 (maxz (scan vs e))"
proof (induction vs arbitrary: e)
  case Nil
  then show ?case by simp
next
  case (Cons v vs)
  have "c0 (minx (visit v e)) \<le> c0 (minx e)" "c0 (maxx e) \<le> c0 (maxx (visit v e))"
       "c1 (miny (visit v e)) \<le> c1 (miny e)" "c1 (maxy e) \<le> c1 (maxy (visit v e))"
       "c2 (minz (visit v e)) \<le> c2 (minz e)" "c2 (maxz e) \<le> c2 (maxz (visit v e))"
    by (simp_all add: visit_def)
  with Cons.IH [of "visit v e"] show ?case
    by (simp only: scan.simps) linarith
qed

lemma scan_covers:
  "v \<in> set vs \<Longrightarrow>
   c0 (minx (scan vs e)) \<le> c0 v \<and> c0 v \<le> c0 (maxx (scan vs e)) \<and>
   c1 (miny (scan vs e)) \<le> c1 v \<and> c1 v \<le> c1 (maxy (scan vs e)) \<and>
   c2 (minz (scan vs e)) \<le> c2 v \<and> c2 v \<le> c2 (maxz (scan vs e))"
proof (induction vs arbitrary: e)
  case Nil
  then show ?case by simp
next
  case (Cons w ws)
  show ?case
  proof (cases "v = w")
    case True
    have "c0 (minx (visit v e)) \<le> c0 v" "c0 v \<le> c0 (maxx (visit v e))"
         "c1 (miny (visit v e)) \<le> c1 v" "c1 v \<le> c1 (maxy (visit v e))"
         "c2 (minz (visit v e)) \<le> c2 v" "c2 v \<le> c2 (maxz (visit v e))"
      by (simp_all add: visit_def)
    with scan_bounds [of ws "visit v e"] True show ?thesis
      by (simp only: scan.simps) linarith
  next
    case False
    with Cons.prems have "v \<in> set ws" by simp
    from Cons.IH [OF this, of "visit w e"] show ?thesis by simp
  qed
qed


text \<open>On one axis, under a monotone rounding that commutes with negation: the rounded
  offset of a coordinate from the midpoint is no greater in magnitude than that of the
  upper end.\<close>

lemma half_extent_rounded:
  fixes a b t :: real and rnd :: rounding
  assumes mono: "\<forall>x y. x \<le> y \<longrightarrow> rnd x \<le> rnd y" and odd: "\<forall>x. rnd (- x) = - rnd x"
    and "a \<le> t" and "t \<le> b"
  shows "rnd (t - (a + b) * 0.5) * rnd (t - (a + b) * 0.5)
           \<le> rnd ((a + b) * 0.5 - b) * rnd ((a + b) * 0.5 - b)"
proof -
  define m where "m = (a + b) * 0.5"
  have "m - b \<le> t - m" using assms(3,4) by (simp add: m_def field_simps)
  with mono have 1: "rnd (m - b) \<le> rnd (t - m)" by blast
  have "t - m \<le> - (m - b)" using assms(3,4) by (simp add: m_def field_simps)
  with mono have "rnd (t - m) \<le> rnd (- (m - b))" by blast
  moreover from odd have "rnd (- (m - b)) = - rnd (m - b)" by blast
  ultimately have 2: "rnd (t - m) \<le> - rnd (m - b)" by linarith
  from 1 2 have "\<bar>rnd (t - m)\<bar> \<le> \<bar>rnd (m - b)\<bar>" by linarith
  then have "(rnd (t - m))\<^sup>2 \<le> (rnd (m - b))\<^sup>2"
    by (rule abs_le_square_iff [THEN iffD1])
  then show ?thesis unfolding m_def by (simp only: power2_eq_square)
qed

text \<open>
  Where the centre is computed without rounding error, the rounding of the rest of the
  computation does no harm: for a rounding that is monotone and commutes with negation,
  and vertices for which the centre computed is the centre that exact arithmetic gives,
  the sphere contains each vertex, the distance being computed in the same arithmetic.
\<close>

lemma computeSphere_contains_mono:
  fixes rnd :: rounding
  assumes mono: "\<forall>x y. x \<le> y \<longrightarrow> rnd x \<le> rnd y"
    and odd: "\<forall>x. rnd (- x) = - rnd x"
    and cen: "center (computeSphere rnd vs) = center (computeSphere exact vs)"
    and v: "v \<in> set vs"
  shows "distance rnd (center (computeSphere rnd vs)) v \<le> radius (computeSphere rnd vs)"
proof -
  from v obtain v0 rest where vs: "vs = v0 # rest" by (cases vs) auto
  define e where
    "e = scan vs \<lparr>minx = v0, miny = v0, minz = v0, maxx = v0, maxy = v0, maxz = v0\<rparr>"
  have cov: "c0 (minx e) \<le> c0 v" "c0 v \<le> c0 (maxx e)"
            "c1 (miny e) \<le> c1 v" "c1 v \<le> c1 (maxy e)"
            "c2 (minz e) \<le> c2 v" "c2 v \<le> c2 (maxz e)"
    using scan_covers [OF v] unfolding e_def by blast+
  have ce: "center (computeSphere exact vs) =
      Vec3 ((c0 (minx e) + c0 (maxx e)) * 0.5) ((c1 (miny e) + c1 (maxy e)) * 0.5)
           ((c2 (minz e) + c2 (maxz e)) * 0.5)"
    unfolding computeSphere_def vs list.case Let_def e_def [unfolded vs, symmetric] center_def
      vec4.sel exact_def
    by (rule refl)
  have cr: "center (computeSphere rnd vs) =
      Vec3 (rnd (rnd (c0 (minx e) + c0 (maxx e)) * 0.5)) (rnd (rnd (c1 (miny e) + c1 (maxy e)) * 0.5))
           (rnd (rnd (c2 (minz e) + c2 (maxz e)) * 0.5))"
    unfolding computeSphere_def vs list.case Let_def e_def [unfolded vs, symmetric] center_def
      vec4.sel
    by (rule refl)
  from cen have m0: "rnd (rnd (c0 (minx e) + c0 (maxx e)) * 0.5) = (c0 (minx e) + c0 (maxx e)) * 0.5"
    and m1: "rnd (rnd (c1 (miny e) + c1 (maxy e)) * 0.5) = (c1 (miny e) + c1 (maxy e)) * 0.5"
    and m2: "rnd (rnd (c2 (minz e) + c2 (maxz e)) * 0.5) = (c2 (minz e) + c2 (maxz e)) * 0.5"
    unfolding ce cr vec3.inject by blast+
  define X where "X = rnd ((c0 (minx e) + c0 (maxx e)) * 0.5 - c0 (maxx e))"
  define Y where "Y = rnd ((c1 (miny e) + c1 (maxy e)) * 0.5 - c1 (maxy e))"
  define Z where "Z = rnd ((c2 (minz e) + c2 (maxz e)) * 0.5 - c2 (maxz e))"
  have cs: "computeSphere rnd vs =
      Vec4 ((c0 (minx e) + c0 (maxx e)) * 0.5) ((c1 (miny e) + c1 (maxy e)) * 0.5)
           ((c2 (minz e) + c2 (maxz e)) * 0.5)
           (rnd (sqrt (rnd (rnd (rnd (X * X) + rnd (Y * Y)) + rnd (Z * Z)))))"
    unfolding computeSphere_def vs list.case Let_def e_def [unfolded vs, symmetric] m0 m1 m2
      X_def Y_def Z_def
    by (rule refl)
  define x where "x = rnd (c0 v - (c0 (minx e) + c0 (maxx e)) * 0.5)"
  define y where "y = rnd (c1 v - (c1 (miny e) + c1 (maxy e)) * 0.5)"
  define z where "z = rnd (c2 v - (c2 (minz e) + c2 (maxz e)) * 0.5)"
  have d: "distance rnd (center (computeSphere rnd vs)) v =
      rnd (sqrt (rnd (rnd (rnd (x * x) + rnd (y * y)) + rnd (z * z))))"
    unfolding cs distance_def center_def Let_def vec4.sel vec3.sel x_def y_def z_def by (rule refl)
  have r: "radius (computeSphere rnd vs) =
      rnd (sqrt (rnd (rnd (rnd (X * X) + rnd (Y * Y)) + rnd (Z * Z))))"
    unfolding cs radius_def vec4.sel by (rule refl)
  have "x * x \<le> X * X" unfolding x_def X_def
    by (rule half_extent_rounded [OF mono odd cov(1,2)])
  with mono have sx: "rnd (x * x) \<le> rnd (X * X)" by blast
  have "y * y \<le> Y * Y" unfolding y_def Y_def
    by (rule half_extent_rounded [OF mono odd cov(3,4)])
  with mono have sy: "rnd (y * y) \<le> rnd (Y * Y)" by blast
  have "z * z \<le> Z * Z" unfolding z_def Z_def
    by (rule half_extent_rounded [OF mono odd cov(5,6)])
  with mono have sz: "rnd (z * z) \<le> rnd (Z * Z)" by blast
  from sx sy have "rnd (x * x) + rnd (y * y) \<le> rnd (X * X) + rnd (Y * Y)" by (rule add_mono)
  with mono have "rnd (rnd (x * x) + rnd (y * y)) \<le> rnd (rnd (X * X) + rnd (Y * Y))" by blast
  from this sz have "rnd (rnd (x * x) + rnd (y * y)) + rnd (z * z)
      \<le> rnd (rnd (X * X) + rnd (Y * Y)) + rnd (Z * Z)" by (rule add_mono)
  with mono have "rnd (rnd (rnd (x * x) + rnd (y * y)) + rnd (z * z))
      \<le> rnd (rnd (rnd (X * X) + rnd (Y * Y)) + rnd (Z * Z))" by blast
  then have "sqrt (rnd (rnd (rnd (x * x) + rnd (y * y)) + rnd (z * z)))
      \<le> sqrt (rnd (rnd (rnd (X * X) + rnd (Y * Y)) + rnd (Z * Z)))" by (rule real_sqrt_le_mono)
  with mono show ?thesis unfolding d r by blast
qed





text \<open>
  In exact arithmetic the sphere computed from the vertices contains each of them, whatever
  the vertices are: the claim holds of the computation over the real numbers, and fails in
  double precision by the rounding of the centre alone.
\<close>

theorem computeSphere_contains_exact:
  assumes "v \<in> set vs"
  shows "distance exact (center (computeSphere exact vs)) v \<le> radius (computeSphere exact vs)"
proof -
  have mono: "\<forall>x y. x \<le> y \<longrightarrow> exact x \<le> exact y" by (simp add: exact_def)
  have odd: "\<forall>x. exact (- x) = - exact x" by (simp add: exact_def)
  from assms show ?thesis
    by (rule computeSphere_contains_mono [OF mono odd refl])
qed

theorem computeSphere_contains_exact_witness:
  "distance exact (center (computeSphere exact [Vec3 0 (1 / 10) 0, Vec3 0 (1 / 5) 0, Vec3 (1 / 10) (1 / 10) 0]))
       (Vec3 0 (1 / 10) 0)
     \<le> radius (computeSphere exact [Vec3 0 (1 / 10) 0, Vec3 0 (1 / 5) 0, Vec3 (1 / 10) (1 / 10) 0])"
  using computeSphere_contains_exact
    [of "Vec3 0 (1 / 10) 0" "[Vec3 0 (1 / 10) 0, Vec3 0 (1 / 5) 0, Vec3 (1 / 10) (1 / 10) 0]"]
  by simp

section \<open>Properties of invert\<close>

lemma reversed_copy: "map (\<lambda>i. xs ! (length xs - Suc i)) [0..<length xs] = rev xs"
  by (rule nth_equalityI) (simp_all add: rev_nth)

text \<open>The result of \<^verbatim>\<open>invert\<close> in closed form.\<close>

lemma invert_eq:
  assumes "p < length h"
  shows "invert h p =
           Inr (length h,
                h @ [\<lparr>vertices = (if length (vertices (h ! p)) < 3 then []
                                   else rev (vertices (h ! p))),
                       plane = map_option plane_flip (plane (h ! p)),
                       boundingSphere = None\<rparr>])"
  using assms
  by (cases "plane (h ! p)")
     (simp_all add: invert_def alloc_def Let_def create_def reversed_copy nth_append)

lemma invert_frame:
  assumes "p < length h"
  shows "\<exists>q h'. invert h p = Inr (q, h') \<and> length h' = Suc (length h) \<and>
           (\<forall>r < length h. h' ! r = h ! r) \<and> boundingSphere (h' ! length h) = None"
  by (simp add: invert_eq [OF assms] nth_append)

lemma plane_flip_flip: "plane_flip (plane_flip pl) = pl"
  by (cases pl) (simp add: plane_flip_def)

text \<open>
  C10, as amended: \<^verbatim>\<open>invert\<close> returns a new polygon \<open>q\<close>, an object that was not
  in the store before, and leaves every object of the store, the argument among them, as it
  was. The plane of \<open>q\<close> is the flipped plane of the argument when the argument has one
  and unset otherwise, and no bounding sphere is cached in \<open>q\<close>. The vertices of \<open>q\<close>
  are the vertices of the argument in reverse order when the argument has none or at least
  three; for an argument of one or two vertices \<open>q\<close> has no vertices at all, because
  \<^verbatim>\<open>create\<close> empties a list of fewer than three.
\<close>

theorem invert_reverses:
  assumes "p < length h"
  shows "\<exists>q h'. invert h p = Inr (q, h') \<and>
           q = length h \<and> length h' = Suc (length h) \<and>
           (\<forall>r < length h. h' ! r = h ! r) \<and>
           vertices (h' ! q) =
             (if length (vertices (h ! p)) < 3 then [] else rev (vertices (h ! p))) \<and>
           plane (h' ! q) = map_option plane_flip (plane (h ! p)) \<and>
           boundingSphere (h' ! q) = None"
proof -
  let ?q = "\<lparr>vertices = (if length (vertices (h ! p)) < 3 then [] else rev (vertices (h ! p))),
             plane = map_option plane_flip (plane (h ! p)), boundingSphere = None\<rparr>"
  have "invert h p = Inr (length h, h @ [?q])"
    by (rule invert_eq [OF assms])
  moreover have "\<forall>r < length h. (h @ [?q]) ! r = h ! r"
    by (simp add: nth_append)
  moreover have "(h @ [?q]) ! length h = ?q"
    by simp
  ultimately show ?thesis
    by simp
qed

theorem invert_reverses_witness:
  "(0::nat) < length [fromPointsAndPlane [Vec3 0 0 0, Vec3 0 10 0, Vec3 0 10 10] (Some (Vec4 1 0 0 0))] \<and>
   invert [fromPointsAndPlane [Vec3 0 0 0, Vec3 0 10 0, Vec3 0 10 10] (Some (Vec4 1 0 0 0))] 0 =
     Inr (1, [fromPointsAndPlane [Vec3 0 0 0, Vec3 0 10 0, Vec3 0 10 10] (Some (Vec4 1 0 0 0)),
              \<lparr>vertices = [Vec3 0 10 10, Vec3 0 10 0, Vec3 0 0 0],
               plane = Some (Vec4 (-1) 0 0 0), boundingSphere = None\<rparr>])"
  using invert_reverses [of 0 "[fromPointsAndPlane [Vec3 0 0 0, Vec3 0 10 0, Vec3 0 10 10] (Some (Vec4 1 0 0 0))]"]
  by (simp add: invert_def alloc_def Let_def create_def fromPointsAndPlane_def plane_flip_def upt_rec)

text \<open>
  The claim as stated fails for the polygon that
  \<^verbatim>\<open>fromPointsAndPlane([[0, 0, 0], [0, 10, 0]], null)\<close> builds: the inverted polygon
  has no vertices, and the reversal of the two vertices is not empty.
\<close>

theorem invert_short_polygon:
  "invert [fromPointsAndPlane [Vec3 0 0 0, Vec3 0 10 0] None] 0 =
     Inr (1, [fromPointsAndPlane [Vec3 0 0 0, Vec3 0 10 0] None,
              \<lparr>vertices = [], plane = None, boundingSphere = None\<rparr>]) \<and>
   rev (vertices (fromPointsAndPlane [Vec3 0 0 0, Vec3 0 10 0] None)) = [Vec3 0 10 0, Vec3 0 0 0]"
  by (simp add: invert_def alloc_def Let_def create_def fromPointsAndPlane_def)

text \<open>
  Inverting twice: for a polygon of no or of at least three vertices, the second inversion
  gives a polygon with the vertices and the plane of the first argument again, and the
  first argument is still as it was.
\<close>

theorem invert_invert:
  assumes "p < length h"
    and "length (vertices (h ! p)) \<noteq> 1" and "length (vertices (h ! p)) \<noteq> 2"
  shows "\<exists>q h1 q2 h2. invert h p = Inr (q, h1) \<and> invert h1 q = Inr (q2, h2) \<and>
           vertices (h2 ! q2) = vertices (h ! p) \<and> plane (h2 ! q2) = plane (h ! p) \<and>
           h2 ! p = h ! p"
proof -
  let ?q = "\<lparr>vertices = (if length (vertices (h ! p)) < 3 then [] else rev (vertices (h ! p))),
             plane = map_option plane_flip (plane (h ! p)), boundingSphere = None\<rparr>"
  let ?h1 = "h @ [?q]"
  have 1: "invert h p = Inr (length h, ?h1)"
    by (rule invert_eq [OF assms(1)])
  have q: "length h < length ?h1" by simp
  let ?q2 = "\<lparr>vertices = (if length (vertices (?h1 ! length h)) < 3 then []
                           else rev (vertices (?h1 ! length h))),
              plane = map_option plane_flip (plane (?h1 ! length h)), boundingSphere = None\<rparr>"
  have 2: "invert ?h1 (length h) = Inr (length ?h1, ?h1 @ [?q2])"
    by (rule invert_eq [OF q])
  from assms(2,3) have "length (vertices (h ! p)) = 0 \<or> 3 \<le> length (vertices (h ! p))"
    by arith
  then have v: "vertices ?q2 = vertices (h ! p)" by auto
  have pl: "plane ?q2 = plane (h ! p)"
    by (cases "plane (h ! p)") (simp_all add: plane_flip_flip)
  from assms(1) have old: "(?h1 @ [?q2]) ! p = h ! p"
    by (simp add: nth_append)
  have new: "(?h1 @ [?q2]) ! length ?h1 = ?q2"
    by (rule nth_append_length)
  from 1 2 v pl old new show ?thesis
    by (intro exI [of _ "length h"] exI [of _ ?h1] exI [of _ "length ?h1"]
          exI [of _ "?h1 @ [?q2]"]) (simp only: simp_thms)
qed

theorem invert_invert_witness:
  "\<exists>q h1 q2 h2.
     invert [fromPointsAndPlane [Vec3 0 0 0, Vec3 0 10 0, Vec3 0 10 10] (Some (Vec4 1 0 0 0))] 0 =
       Inr (q, h1) \<and>
     invert h1 q = Inr (q2, h2) \<and>
     vertices (h2 ! q2) = [Vec3 0 0 0, Vec3 0 10 0, Vec3 0 10 10] \<and>
     plane (h2 ! q2) = Some (Vec4 1 0 0 0)"
  using invert_invert
    [of 0 "[fromPointsAndPlane [Vec3 0 0 0, Vec3 0 10 0, Vec3 0 10 10] (Some (Vec4 1 0 0 0))]"]
  by (simp add: fromPointsAndPlane_def) blast

section \<open>Properties of the caches\<close>


text \<open>One call of the accessor of the plane, and the call after it.\<close>

lemma plane_result:
  assumes "poly3_plane fp h p = Inr (pl, h1)"
  shows "p < length h \<and> length h1 = length h \<and> plane (h1 ! p) = Some pl \<and>
         poly3_plane fp h1 p = Inr (pl, h1) \<and>
         (\<forall>r < length h. vertices (h1 ! r) = vertices (h ! r) \<and>
              boundingSphere (h1 ! r) = boundingSphere (h ! r) \<and>
              (\<forall>c. plane (h ! r) = Some c \<longrightarrow> plane (h1 ! r) = Some c) \<and>
              (r \<noteq> p \<longrightarrow> h1 ! r = h ! r)) \<and>
         (\<forall>c. plane (h ! p) = Some c \<longrightarrow> pl = c \<and> h1 = h)"
proof -
  from assms have p: "p < length h"
    by (auto simp: poly3_plane_def split: if_splits)
  show ?thesis
  proof (cases "plane (h ! p)")
    case (Some c)
    with assms p show ?thesis by (simp add: poly3_plane_def)
  next
    case None
    with assms p have h1: "h1 = h[p := (h ! p)\<lparr>plane := Some pl\<rparr>]"
      by (auto simp: poly3_plane_def Let_def split: sum.splits)
    from p have 1: "length h1 = length h" "plane (h1 ! p) = Some pl" by (simp_all add: h1)
    from p have 2: "poly3_plane fp h1 p = Inr (pl, h1)" by (simp add: h1 poly3_plane_def)
    from p None have 3: "\<forall>r < length h. vertices (h1 ! r) = vertices (h ! r) \<and>
        boundingSphere (h1 ! r) = boundingSphere (h ! r) \<and>
        (\<forall>c. plane (h ! r) = Some c \<longrightarrow> plane (h1 ! r) = Some c) \<and>
        (r \<noteq> p \<longrightarrow> h1 ! r = h ! r)"
      by (auto simp: h1 nth_list_update)
    from p 1 2 3 None show ?thesis by simp
  qed
qed



lemma step_cache_valid:
  assumes "step rnd fp h h'" and "\<forall>r < length h. cache_valid rnd (h ! r)"
  shows "\<forall>r < length h'. cache_valid rnd (h' ! r)"
  using assms
proof (induction rule: step.induct)
  case (step_create h arg)
  then show ?case by (auto simp: alloc_def nth_append cache_valid_def create_def)
next
  case (step_fromPointsAndPlane h vs pl)
  then show ?case by (auto simp: alloc_def nth_append cache_valid_def fromPointsAndPlane_def)
next
  case (step_invert h p q h')
  from step_invert(1) have "p < length h"
    by (auto simp: invert_def split: if_splits)
  from invert_frame [OF this] step_invert(1)
  have *: "length h' = Suc (length h)" "\<forall>r<length h. h' ! r = h ! r"
          "boundingSphere (h' ! length h) = None" by auto
  show ?case
  proof (intro allI impI)
    fix r assume "r < length h'"
    with * have "r < length h \<or> r = length h" by auto
    then show "cache_valid rnd (h' ! r)"
    proof
      assume "r < length h"
      with * step_invert(2) show ?thesis by simp
    next
      assume "r = length h"
      with * show ?thesis by (simp add: cache_valid_def)
    qed
  qed
next
  case (step_measure h p s h')
  from step_measure(1) have "p < length h"
    by (auto simp: measureBoundingSphere_def split: if_splits)
  with step_measure show ?case
    by (auto simp: measureBoundingSphere_def Let_def nth_list_update cache_valid_def
             split: option.splits if_splits)
next
  case (step_plane h p pl h')
  from plane_result [OF step_plane(1)] have
    *: "length h' = length h"
       "\<forall>r < length h. vertices (h' ! r) = vertices (h ! r) \<and>
            boundingSphere (h' ! r) = boundingSphere (h ! r)"
    by simp_all
  show ?case
  proof (intro allI impI)
    fix r assume "r < length h'"
    with * have r: "r < length h" "vertices (h' ! r) = vertices (h ! r)"
      "boundingSphere (h' ! r) = boundingSphere (h ! r)" by simp_all
    from step_plane(2) r(1) have "cache_valid rnd (h ! r)" by blast
    with r show "cache_valid rnd (h' ! r)" by (simp add: cache_valid_def split: option.splits)
  qed
qed

lemma steps_cache_valid:
  assumes "(step rnd fp)\<^sup>*\<^sup>* h h'" and "\<forall>r < length h. cache_valid rnd (h ! r)"
  shows "\<forall>r < length h'. cache_valid rnd (h' ! r)"
  using assms
  by (induction rule: rtranclp_induct) (auto dest: step_cache_valid)






text \<open>
  Every store that calls of the five functions build from the empty store keeps the caches
  valid: in each of its polygons the cache is unset or holds the sphere computed from the
  vertices.
\<close>

theorem reachable_cache_valid:
  assumes "(step rnd fp)\<^sup>*\<^sup>* [] h" and "p < length h"
  shows "cache_valid rnd (h ! p)"
  using steps_cache_valid [OF assms(1)] assms(2) by simp

theorem reachable_cache_valid_witness:
  "(step double (\<lambda>vs. Inl TypeError))\<^sup>*\<^sup>* [] [create None] \<and> (0::nat) < length [create None] \<and>
   cache_valid double ([create None] ! 0)"
proof -
  have "step double (\<lambda>vs. Inl TypeError) [] (snd (alloc [] (create None)))" by (rule step_create)
  then have s: "(step double (\<lambda>vs. Inl TypeError))\<^sup>*\<^sup>* [] [create None]" by (simp add: alloc_def)
  have l: "(0::nat) < length [create None]" by simp
  from s l reachable_cache_valid [OF s l] show ?thesis by simp
qed

section \<open>Properties of create\<close>

text \<open>
  C6: \<^verbatim>\<open>create\<close> called with \<^verbatim>\<open>undefined\<close> or with fewer than three
  vertices returns the placeholder polygon: no vertices, and neither a plane nor a bounding
  sphere cached.
\<close>

theorem create_placeholder:
  "vs = None \<or> (\<exists>l. vs = Some l \<and> length l < 3) \<Longrightarrow>
   create vs = \<lparr>vertices = [], plane = None, boundingSphere = None\<rparr>"
  by (auto simp: create_def)

theorem create_placeholder_witness:
  "create None = \<lparr>vertices = [], plane = None, boundingSphere = None\<rparr> \<and>
   create (Some [Vec3 0 0 0, Vec3 0 10 0]) = \<lparr>vertices = [], plane = None, boundingSphere = None\<rparr>"
  using create_placeholder [of None] create_placeholder [of "Some [Vec3 0 0 0, Vec3 0 10 0]"]
  by simp

section \<open>Properties of minkowskiSum\<close>

text \<open>
  C7: whatever the environment is, \<^verbatim>\<open>minkowskiSum\<close> called with fewer than two
  operands throws \<^verbatim>\<open>minkowskiSum requires at least two geometries\<close>, and called with
  more than two it throws \<^verbatim>\<open>minkowskiSum currently supports exactly two geometries\<close>.
  The operands are the arguments after flattening; the result does not depend on
  \<open>env\<close>, so no convexity analysis and no construction of geometry comes before the
  error.
\<close>

theorem minkowskiSum_operand_count:
  "(length (flatten args) < 2 \<longrightarrow>
      minkowskiSum env args = Inl (Error ''minkowskiSum requires at least two geometries'')) \<and>
   (2 < length (flatten args) \<longrightarrow>
      minkowskiSum env args = Inl (Error ''minkowskiSum currently supports exactly two geometries''))"
  by (simp add: minkowskiSum_def Let_def)

theorem minkowskiSum_operand_count_witness:
  "minkowskiSum throwing [] = Inl (Error ''minkowskiSum requires at least two geometries'') \<and>
   minkowskiSum throwing [JGeom3 (geom3_create [])] =
     Inl (Error ''minkowskiSum requires at least two geometries'') \<and>
   minkowskiSum throwing [JGeom3 (geom3_create []), JGeom3 (geom3_create []), JGeom3 (geom3_create [])] =
     Inl (Error ''minkowskiSum currently supports exactly two geometries'')"
  using minkowskiSum_operand_count [of "[]" throwing]
    minkowskiSum_operand_count [of "[JGeom3 (geom3_create [])]" throwing]
    minkowskiSum_operand_count
      [of "[JGeom3 (geom3_create []), JGeom3 (geom3_create []), JGeom3 (geom3_create [])]" throwing]
  by simp

lemma two_elems: "length xs = 2 \<Longrightarrow> set xs = {xs ! 0, xs ! 1}"
  by (cases xs; cases "tl xs") auto

text \<open>
  C8, as amended: whatever the environment is, a call of \<^verbatim>\<open>minkowskiSum\<close> with
  an operand that is not a solid throws at entry, before any convexity analysis or
  construction of geometry: the error of the operand count when the operands are not
  exactly two, and otherwise the fixed message
  \<^verbatim>\<open>minkowskiSum requires geom3 geometries\<close>, which is the same whichever operand is
  at fault.
\<close>

theorem minkowskiSum_non_geometry:
  assumes "\<exists>v \<in> set (flatten args). \<not> geom3_isA v"
  shows "minkowskiSum env args =
           Inl (Error (if length (flatten args) < 2
                       then ''minkowskiSum requires at least two geometries''
                       else if 2 < length (flatten args)
                       then ''minkowskiSum currently supports exactly two geometries''
                       else ''minkowskiSum requires geom3 geometries''))"
proof (cases "length (flatten args) = 2")
  case True
  from assms two_elems [OF True]
  have "\<not> geom3_isA (flatten args ! 0) \<or> \<not> geom3_isA (flatten args ! 1)" by auto
  with True show ?thesis by (simp add: minkowskiSum_def Let_def)
next
  case False
  then show ?thesis by (auto simp: minkowskiSum_def Let_def)
qed

theorem minkowskiSum_non_geometry_witness:
  "minkowskiSum throwing [JString ''invalid'', JGeom3 (geom3_create [])] =
     Inl (Error ''minkowskiSum requires geom3 geometries'') \<and>
   minkowskiSum throwing [JString ''invalid''] =
     Inl (Error ''minkowskiSum requires at least two geometries'')"
  using minkowskiSum_non_geometry [of "[JString ''invalid'', JGeom3 (geom3_create [])]" throwing]
     minkowskiSum_non_geometry [of "[JString ''invalid'']" throwing]
  by simp

text \<open>
  The claim as stated fails: the two calls of the test
  \<^verbatim>\<open>minkowskiSum: throws for non-geom3 inputs\<close>, one with the string first and one
  with the string second, throw the same error, whose message names no position.
\<close>

theorem minkowskiSum_error_without_position:
  "minkowskiSum throwing [JString ''invalid'', JGeom3 (geom3_create [])] =
     Inl (Error ''minkowskiSum requires geom3 geometries'') \<and>
   minkowskiSum throwing [JGeom3 (geom3_create []), JString ''invalid''] =
     Inl (Error ''minkowskiSum requires geom3 geometries'')"
  by (simp add: minkowskiSum_def)

text \<open>
  \<^verbatim>\<open>extractUniqueVertices\<close> returns every vertex of the solid exactly once.
\<close>

lemma pushUnique_distinct:
  "distinct unique \<Longrightarrow>
   distinct (pushUnique unique vs) \<and> set (pushUnique unique vs) = set unique \<union> set vs"
  by (induction vs arbitrary: unique) auto

theorem extractUniqueVertices_distinct:
  "distinct (extractUniqueVertices geometry) \<and>
   set (extractUniqueVertices geometry) =
     (\<Union>polygon \<in> set (toPolygons geometry). set (vertices polygon))"
  using pushUnique_distinct [of "[]" "concat (map vertices (toPolygons geometry))"]
  by (simp add: extractUniqueVertices_def)

text \<open>
  The sum of two convex solids of which one has no polygons is the empty solid, without a
  call of \<^verbatim>\<open>hullPoints3\<close> (the test
  \<^verbatim>\<open>minkowskiSum: empty geometry returns empty\<close>).
\<close>

theorem minkowskiSum_empty_operand:
  assumes "isConvex env a = Inr True" and "isConvex env b = Inr True"
    and "toPolygons a = [] \<or> toPolygons b = []"
  shows "minkowskiSum env [JGeom3 a, JGeom3 b] = Inr (geom3_create [])"
  using assms
  by (auto simp: minkowskiSum_def bindE_def minkowskiSumConvex_def extractUniqueVertices_def
        Let_def)

theorem minkowskiSum_empty_operand_witness:
  "minkowskiSum (throwing\<lparr>isConvex := \<lambda>g. Inr True\<rparr>)
     [JGeom3 (geom3_create []),
      JGeom3 (geom3_create [create (Some [Vec3 0 0 0, Vec3 0 10 0, Vec3 0 10 10])])] =
   Inr (geom3_create [])"
  using minkowskiSum_empty_operand
    [of "throwing\<lparr>isConvex := \<lambda>g. Inr True\<rparr>" "geom3_create []"
        "geom3_create [create (Some [Vec3 0 0 0, Vec3 0 10 0, Vec3 0 10 10])]"]
  by (simp add: toPolygons_def geom3_create_def)

end
